theory Spec2Isabelle
  imports Main "HOL-Library.Word"
begin

section \<open>Data model\<close>

text \<open>
  The master server of \<^verbatim>\<open>src/dMasterServer/MasterServer.cpp\<close>: the packet handler
  \<^verbatim>\<open>HandlePacket\<close>, the body of the control loop of \<^verbatim>\<open>main\<close> and
  \<^verbatim>\<open>ShutdownSequence\<close>. Fixed-width integers are words of the declared width, a
  narrowing conversion at a call is \<open>ucast\<close>. Logging is left out: it changes nothing
  the handlers read.
\<close>

record SystemAddress =
  binaryAddress :: "32 word"
  port :: "16 word"

record TransferRequest =
  requestID :: "64 word"
  mythranShift :: bool
  requester :: SystemAddress

text \<open>
  Modelled from the spec: the class \<^verbatim>\<open>Instance\<close> (Instance.h is not among the
  sources). The fields are the attributes of section 3 of the specification; the port of
  an instance is called \<open>instancePort\<close> here because \<open>port\<close> is the field of
  \<^verbatim>\<open>SystemAddress\<close>. \<open>players\<close> is the number of players: the handlers only ever add
  and remove the value \<^verbatim>\<open>Player()\<close>.
\<close>

record Instance =
  mapID :: "16 word"
  cloneID :: "32 word"
  instanceID :: "16 word"
  instancePort :: "16 word"
  ip :: string
  sysAddr :: SystemAddress
  ready :: bool
  shuttingDown :: bool
  shutdownComplete :: bool
  softCap :: nat
  hardCap :: nat
  players :: nat
  pendingRequests :: "TransferRequest list"
  pendingAffirmations :: "TransferRequest list"
  affirmationTimeout :: "32 word"
  privatePassword :: "string option"

datatype ServerType = Master | Auth | Chat | World

text \<open>The messages the master sends (section 6 of the specification, direction out).\<close>

datatype OutMessage =
    PERSISTENT_ID_RESPONSE "64 word" "32 word"
  | ZONE_TRANSFER_RESPONSE "64 word" bool "16 word" "16 word" "32 word" string "16 word"
  | NEW_SESSION_ALERT "32 word" string
  | SESSION_KEY_RESPONSE "32 word" string
  | PREP_ZONE "32 word"
  | SHUTDOWN
  | RESPOND_INSTANCES "64 word" "(16 word \<times> 32 word \<times> 16 word) list"

text \<open>
  What the process does to the outside, in the order it does it: a message to one peer,
  a broadcast, a child process started, the persistent-ID counter saved, the log flushed,
  the SQL connection touched.
\<close>

datatype Effect =
    Send SystemAddress OutMessage
  | Broadcast OutMessage
  | StartChatServer
  | StartAuthServer
  | LaunchWorld string "16 word" "16 word" "16 word" "32 word" nat
  | SaveToDatabase
  | LoggerFlush
  | SqlPing

text \<open>
  The payload of a packet of the master subsystem after the reads of its
  \<^verbatim>\<open>case\<close>, with the types of the local variables read into. The zone of
  \<^verbatim>\<open>GET_INSTANCES\<close> is optional on the wire (a presence bit).
\<close>

datatype MasterMessage =
    MSG_MASTER_REQUEST_PERSISTENT_ID "64 word"
  | MSG_MASTER_REQUEST_ZONE_TRANSFER "64 word" "8 word" "32 word" "32 word"
  | MSG_MASTER_SERVER_INFO "32 word" "32 word" "32 word" ServerType string
  | MSG_MASTER_SET_SESSION_KEY "32 word" string
  | MSG_MASTER_REQUEST_SESSION_KEY string
  | MSG_MASTER_PLAYER_ADDED "16 word" "16 word"
  | MSG_MASTER_PLAYER_REMOVED "16 word" "16 word"
  | MSG_MASTER_CREATE_PRIVATE_ZONE "32 word" "32 word" string
  | MSG_MASTER_REQUEST_PRIVATE_ZONE "64 word" "8 word" string
  | MSG_MASTER_WORLD_READY "16 word" "16 word"
  | MSG_MASTER_PREP_ZONE "32 word"
  | MSG_MASTER_AFFIRM_TRANSFER_RESPONSE "64 word"
  | MSG_MASTER_SHUTDOWN_RESPONSE
  | MSG_MASTER_SHUTDOWN_UNIVERSE
  | MSG_MASTER_SHUTDOWN_INSTANCE "32 word" "16 word"
  | MSG_MASTER_GET_INSTANCES "64 word" "16 word option" "16 word" "16 word"
  | MSG_MASTER_UNKNOWN

text \<open>
  Byte 0 of a packet is tested against two transport identifiers, and byte 1 against
  \<^verbatim>\<open>MASTER\<close>, in three separate \<^verbatim>\<open>if\<close> statements; \<open>master\<close> is \<open>None\<close> when
  byte 1 is not \<^verbatim>\<open>MASTER\<close>.
\<close>

datatype PacketID = ID_DISCONNECTION_NOTIFICATION | ID_CONNECTION_LOST | ID_USER_PACKET

record Packet =
  data0 :: PacketID
  systemAddress :: SystemAddress
  master :: "MasterMessage option"

datatype error = NullPointerDereference

text \<open>
  The globals of the process. \<open>m_Instances\<close> is the vector of instance pointers of the
  instance manager together with the objects pointed to: a pointer is a number, handed out
  once by \<open>nextPtr\<close>. \<open>activeSessions\<close> is the \<^verbatim>\<open>std::map\<close> in the order of its
  iteration, ascending by key. \<open>effects\<close> is the trace of what was done so far.
\<close>

record MasterState =
  m_Instances :: "(nat \<times> Instance) list"
  nextPtr :: nat
  mExternalIP :: string
  activeSessions :: "(32 word \<times> string) list"
  shouldShutdown :: bool
  shutdownSequenceStarted :: bool
  chatServerMasterPeerSysAddr :: SystemAddress
  currentPersistentID :: "32 word"
  effects :: "Effect list"

text \<open>
  What neither the sources nor the specification fix is a parameter of the model: the
  port and the instance id a launch chooses (the specification says "choose a free port,
  allocate a fresh instanceID") and the constant \<^verbatim>\<open>LWOMAPID_INVALID\<close> of
  dCommonVars.h.
\<close>

record Env =
  GetFreePort :: "Instance list \<Rightarrow> 16 word"
  FreshInstanceID :: "Instance list \<Rightarrow> 16 word"
  LWOMAPID_INVALID :: "16 word"

section \<open>The instance manager\<close>

text \<open>
  InstanceManager.cpp and Instance.cpp are not among the sources: what \<^verbatim>\<open>HandlePacket\<close>,
  \<^verbatim>\<open>main\<close> and \<^verbatim>\<open>ShutdownSequence\<close> call of them is defined here from sections 3,
  4.E and 4.F of the specification. \<open>emit\<close>, \<open>deref\<close> and \<open>modify\<close> are the three
  things every method does: add to the trace, follow a pointer, write through a pointer.
\<close>

definition emit :: "Effect \<Rightarrow> MasterState \<Rightarrow> MasterState" where
  "emit e s = s\<lparr>effects := effects s @ [e]\<rparr>"

definition deref :: "MasterState \<Rightarrow> nat \<Rightarrow> Instance option" where
  "deref s p = map_of (m_Instances s) p"

definition modify :: "nat \<Rightarrow> (Instance \<Rightarrow> Instance) \<Rightarrow> MasterState \<Rightarrow> MasterState" where
  "modify p f s =
     s\<lparr>m_Instances := map (\<lambda>(q, i). if q = p then (q, f i) else (q, i)) (m_Instances s)\<rparr>"

text \<open>
  Modelled from the spec: \<^verbatim>\<open>InstanceManager::GetInstances\<close>, the primary list of the
  registry in insertion order, as the pointers it holds.
\<close>

definition GetInstances :: "MasterState \<Rightarrow> nat list" where
  "GetInstances s = map fst (m_Instances s)"

text \<open>
  Modelled from the spec: \<^verbatim>\<open>InstanceManager::AddInstance\<close> (the operation \<open>add\<close> of
  section 4.E) together with the \<^verbatim>\<open>new\<close> that made the object: the instance goes to
  the end of the primary list under a pointer not handed out before.
\<close>

definition AddInstance :: "Instance \<Rightarrow> MasterState \<Rightarrow> nat \<times> MasterState" where
  "AddInstance i s =
     (nextPtr s, s\<lparr>m_Instances := m_Instances s @ [(nextPtr s, i)], nextPtr := Suc (nextPtr s)\<rparr>)"

text \<open>
  Modelled from the spec: \<^verbatim>\<open>InstanceManager::RemoveInstance\<close> (the operation
  \<open>remove\<close>): the instance leaves the registry and is destroyed.
\<close>

definition RemoveInstance :: "nat \<Rightarrow> MasterState \<Rightarrow> MasterState" where
  "RemoveInstance p s = s\<lparr>m_Instances := filter (\<lambda>(q, i). q \<noteq> p) (m_Instances s)\<rparr>"

text \<open>
  Modelled from the spec: \<^verbatim>\<open>InstanceManager::GetInstanceBySysAddr\<close> (the lookup
  \<open>getBySysAddr\<close>): the first instance of the primary list with that address, or null.
\<close>

definition GetInstanceBySysAddr :: "SystemAddress \<Rightarrow> MasterState \<Rightarrow> (nat \<times> Instance) option" where
  "GetInstanceBySysAddr a s = find (\<lambda>(p, i). sysAddr i = a) (m_Instances s)"

text \<open>
  Modelled from the spec: \<^verbatim>\<open>InstanceManager::FindInstance(mapID, instanceID)\<close> (the
  lookup \<open>findByMapAndInstance\<close>, of which the clone is no part): the first instance of the
  primary list with that map and instance id, or null.
\<close>

definition FindInstance :: "16 word \<Rightarrow> 16 word \<Rightarrow> MasterState \<Rightarrow> (nat \<times> Instance) option" where
  "FindInstance m iid s = find (\<lambda>(p, i). mapID i = m \<and> instanceID i = iid) (m_Instances s)"

text \<open>
  Modelled from the spec: \<^verbatim>\<open>InstanceManager::FindInstancesByMapID\<close> (the lookup
  \<open>findByMapID\<close>): the instances of that map, in the order of the primary list.
\<close>

definition FindInstancesByMapID :: "16 word \<Rightarrow> MasterState \<Rightarrow> (nat \<times> Instance) list" where
  "FindInstancesByMapID m s = filter (\<lambda>(p, i). mapID i = m) (m_Instances s)"

text \<open>
  Modelled from the spec: \<^verbatim>\<open>InstanceManager::FindPrivateInstance\<close> (the lookup
  \<open>findPrivate(password)\<close>): the first instance with that private password, or null.
\<close>

definition FindPrivateInstance :: "string \<Rightarrow> MasterState \<Rightarrow> (nat \<times> Instance) option" where
  "FindPrivateInstance pw s = find (\<lambda>(p, i). privatePassword i = Some pw) (m_Instances s)"

text \<open>
  Modelled from the spec: \<^verbatim>\<open>InstanceManager::IsPortInUse\<close> (the operation
  \<open>isPortInUse(port)\<close>): some instance of the registry has that port.
\<close>

definition IsPortInUse :: "16 word \<Rightarrow> MasterState \<Rightarrow> bool" where
  "IsPortInUse pt s = (find (\<lambda>(p, i). instancePort i = pt) (m_Instances s) \<noteq> None)"

text \<open>
  Modelled from the spec: the constructor
  \<^verbatim>\<open>Instance(ip, port, mapID, instanceID, cloneID, softCap, hardCap)\<close>: a new instance
  is not ready, not shutting down, has no players, empty queues, the counter 0 and no
  private password.
\<close>

definition new_Instance ::
  "string \<Rightarrow> 16 word \<Rightarrow> 16 word \<Rightarrow> 16 word \<Rightarrow> 32 word \<Rightarrow> nat \<Rightarrow> nat \<Rightarrow> Instance" where
  "new_Instance a pt m iid c soft hard =
     \<lparr>mapID = m, cloneID = c, instanceID = iid, instancePort = pt, ip = a,
      sysAddr = \<lparr>binaryAddress = 0, port = 0\<rparr>, ready = False, shuttingDown = False,
      shutdownComplete = False, softCap = soft, hardCap = hard, players = 0,
      pendingRequests = [], pendingAffirmations = [], affirmationTimeout = 0,
      privatePassword = None\<rparr>"

text \<open>
  Modelled from the spec: the launch of a world process (step 2 of zone resolution in
  section 4.F): a port and an instance id are chosen, the child is started with
  \<open>{ip, port, mapID, instanceID, cloneID, maxPlayers}\<close> and the new instance, not
  ready, with the default caps 12/12, joins the registry.
\<close>

definition launch ::
  "Env \<Rightarrow> 16 word \<Rightarrow> 32 word \<Rightarrow> string option \<Rightarrow> MasterState \<Rightarrow> nat \<times> MasterState" where
  "launch env m c pw s =
     (let known = map snd (m_Instances s);
          pt = GetFreePort env known;
          iid = FreshInstanceID env known;
          i = (new_Instance (mExternalIP s) pt m iid c 12 12)\<lparr>privatePassword := pw\<rparr>
      in AddInstance i (emit (LaunchWorld (mExternalIP s) pt m iid c 12) s))"

text \<open>
  Modelled from the spec: zone resolution
  \<^verbatim>\<open>InstanceManager::GetInstance(mapID, isFriendTransfer, cloneID)\<close>: the first
  instance that is not shutting down, not private, of that map and with fewer players
  than its soft cap; a launch when there is none. It never answers null.
\<close>

definition GetInstance ::
  "Env \<Rightarrow> 16 word \<Rightarrow> bool \<Rightarrow> 32 word \<Rightarrow> MasterState \<Rightarrow> nat \<times> MasterState" where
  "GetInstance env m isFriendTransfer c s =
     (case find (\<lambda>(p, i). \<not> shuttingDown i \<and> privatePassword i = None \<and> mapID i = m
                           \<and> players i < softCap i) (m_Instances s) of
        Some (p, i) \<Rightarrow> (p, s)
      | None \<Rightarrow> launch env m c None s)"

text \<open>
  Modelled from the spec: \<^verbatim>\<open>InstanceManager::CreatePrivateInstance\<close>: "spawns an
  instance and records its password".
\<close>

definition CreatePrivateInstance ::
  "Env \<Rightarrow> 16 word \<Rightarrow> 32 word \<Rightarrow> string \<Rightarrow> MasterState \<Rightarrow> nat \<times> MasterState" where
  "CreatePrivateInstance env m c pw s = launch env m c (Some pw) s"

text \<open>
  Modelled from the spec: \<^verbatim>\<open>Instance::Shutdown()\<close> sends \<^verbatim>\<open>SHUTDOWN\<close>, a
  message without payload, to the instance.
\<close>

definition Shutdown :: "nat \<Rightarrow> MasterState \<Rightarrow> MasterState" where
  "Shutdown p s =
     (case deref s p of None \<Rightarrow> s | Some i \<Rightarrow> emit (Send (sysAddr i) SHUTDOWN) s)"

text \<open>
  Modelled from the spec: \<^verbatim>\<open>InstanceManager::RequestAffirmation(instance, req)\<close>:
  \<^verbatim>\<open>PREP_ZONE\<close> with the zone goes to the instance and the request joins the set
  \<open>pendingAffirmations\<close>.
\<close>

definition RequestAffirmation :: "nat \<Rightarrow> TransferRequest \<Rightarrow> MasterState \<Rightarrow> MasterState" where
  "RequestAffirmation p r s =
     (case deref s p of
        None \<Rightarrow> s
      | Some i \<Rightarrow>
          modify p (\<lambda>i. i\<lparr>pendingAffirmations := List.insert r (pendingAffirmations i)\<rparr>)
            (emit (Send (sysAddr i) (PREP_ZONE (ucast (mapID i)))) s))"

text \<open>
  Modelled from the spec: the \<^verbatim>\<open>ZONE_TRANSFER_RESPONSE\<close> that answers a request with
  the endpoint of an instance, and \<^verbatim>\<open>InstanceManager::AffirmTransfer(instance,
  requestID)\<close>: the requests of that id leave \<open>pendingAffirmations\<close> and the requester
  of each gets the response.
\<close>

definition transfer_response :: "Instance \<Rightarrow> TransferRequest \<Rightarrow> Effect" where
  "transfer_response i r =
     Send (requester r)
       (ZONE_TRANSFER_RESPONSE (requestID r) (mythranShift r) (mapID i) (instanceID i)
          (cloneID i) (ip i) (instancePort i))"

definition AffirmTransfer :: "nat \<Rightarrow> 64 word \<Rightarrow> MasterState \<Rightarrow> MasterState" where
  "AffirmTransfer p rid s =
     (case deref s p of
        None \<Rightarrow> s
      | Some i \<Rightarrow>
          (modify p (\<lambda>i. i\<lparr>pendingAffirmations :=
                              filter (\<lambda>r. requestID r \<noteq> rid) (pendingAffirmations i)\<rparr>) s)
            \<lparr>effects := effects s @
               map (transfer_response i)
                 (filter (\<lambda>r. requestID r = rid) (pendingAffirmations i))\<rparr>)"

text \<open>
  Modelled from the spec: \<^verbatim>\<open>InstanceManager::ReadyInstance(instance)\<close>: the instance
  is marked ready, its queue is drained and each request of the queue enters the
  affirmation flow.
\<close>

definition ReadyInstance :: "nat \<Rightarrow> MasterState \<Rightarrow> MasterState" where
  "ReadyInstance p s =
     (case deref s p of
        None \<Rightarrow> s
      | Some i \<Rightarrow>
          fold (RequestAffirmation p) (pendingRequests i)
            (modify p (\<lambda>i. i\<lparr>ready := True, pendingRequests := []\<rparr>) s))"

text \<open>
  Modelled from the spec: "the normal path" of a transfer request once its instance is
  resolved: held in \<open>pendingRequests\<close> while the instance is not ready, the affirmation
  flow otherwise.
\<close>

definition submit :: "nat \<Rightarrow> TransferRequest \<Rightarrow> MasterState \<Rightarrow> MasterState" where
  "submit p r s =
     (case deref s p of
        None \<Rightarrow> s
      | Some i \<Rightarrow>
          if \<not> ready i
          then modify p (\<lambda>i. i\<lparr>pendingRequests := pendingRequests i @ [r]\<rparr>) s
          else RequestAffirmation p r s)"

text \<open>
  Modelled from the spec: \<^verbatim>\<open>InstanceManager::RedirectPendingRequests(instance)\<close>: every
  request of \<open>pendingAffirmations\<close> and of \<open>pendingRequests\<close> is moved out of the
  instance and goes, one after the other by the normal path, to an instance resolved anew
  for the same map and clone.
\<close>

definition redirect_one ::
  "Env \<Rightarrow> 16 word \<Rightarrow> 32 word \<Rightarrow> TransferRequest \<Rightarrow> MasterState \<Rightarrow> MasterState" where
  "redirect_one env m c r s = (case GetInstance env m False c s of (q, s') \<Rightarrow> submit q r s')"

definition RedirectPendingRequests :: "Env \<Rightarrow> nat \<Rightarrow> MasterState \<Rightarrow> MasterState" where
  "RedirectPendingRequests env p s =
     (case deref s p of
        None \<Rightarrow> s
      | Some i \<Rightarrow>
          fold (redirect_one env (mapID i) (cloneID i))
            (pendingAffirmations i @ pendingRequests i)
            (modify p (\<lambda>i. i\<lparr>pendingAffirmations := [], pendingRequests := []\<rparr>) s))"

text \<open>
  Modelled from the spec: \<^verbatim>\<open>ObjectIDManager::GeneratePersistentID\<close> (ObjectIDManager.cpp
  is not among the sources): the counter advances and the new value is handed out.
\<close>

definition GeneratePersistentID :: "MasterState \<Rightarrow> 32 word \<times> MasterState" where
  "GeneratePersistentID s =
     (currentPersistentID s + 1, s\<lparr>currentPersistentID := currentPersistentID s + 1\<rparr>)"

section \<open>The session map\<close>

text \<open>
  \<^verbatim>\<open>std::map<uint32_t, std::string>\<close>: \<^verbatim>\<open>erase(key)\<close> removes the entry of a key,
  \<^verbatim>\<open>insert(pair)\<close> adds the pair in key order and does nothing when the key is
  already present.
\<close>

definition map_erase :: "32 word \<Rightarrow> (32 word \<times> string) list \<Rightarrow> (32 word \<times> string) list" where
  "map_erase k m = filter (\<lambda>(k', v). k' \<noteq> k) m"

definition map_insert ::
  "32 word \<times> string \<Rightarrow> (32 word \<times> string) list \<Rightarrow> (32 word \<times> string) list" where
  "map_insert kv m = (if fst kv \<in> fst ` set m then m else insort_key fst kv m)"

text \<open>\<^verbatim>\<open>std::string::c_str()\<close> handed to a callee: the bytes before the first NUL.\<close>

definition c_str :: "string \<Rightarrow> string" where
  "c_str pw = takeWhile (\<lambda>c. c \<noteq> CHR 0x00) pw"

section \<open>HandlePacket\<close>

text \<open>
  The body shared by the branches for \<^verbatim>\<open>ID_DISCONNECTION_NOTIFICATION\<close> and
  \<^verbatim>\<open>ID_CONNECTION_LOST\<close> (lines 372-387 and 389-403): the instance of the peer, if
  there is one, is removed; the chat server is started again when the peer is the
  remembered chat peer and no universe shutdown is under way.
\<close>

definition peer_gone :: "SystemAddress \<Rightarrow> MasterState \<Rightarrow> MasterState" where
  "peer_gone a s =
     (let s1 = (case GetInstanceBySysAddr a s of
                  Some (p, i) \<Rightarrow> RemoveInstance p s
                | None \<Rightarrow> s)
      in if a = chatServerMasterPeerSysAddr s1 \<and> \<not> shouldShutdown s1
         then emit StartChatServer s1 else s1)"

text \<open>
  The \<^verbatim>\<open>switch\<close> on byte 3 (lines 406-794), one equation per \<^verbatim>\<open>case\<close> in the
  order of the source. Only \<^verbatim>\<open>MSG_MASTER_GET_INSTANCES\<close> uses the result of a lookup
  without testing it. \<^verbatim>\<open>MSG_MASTER_REQUEST_ZONE_TRANSFER\<close> dereferences what
  \<^verbatim>\<open>GetInstance\<close> answered, also untested: the equation keeps the branch of a pointer
  that is not in the registry, which \<open>GetInstance\<close> never answers.
\<close>

fun HandleMaster ::
  "Env \<Rightarrow> SystemAddress \<Rightarrow> MasterMessage \<Rightarrow> MasterState \<Rightarrow> error + MasterState" where
  "HandleMaster env a (MSG_MASTER_REQUEST_PERSISTENT_ID rid) s =
     (case GeneratePersistentID s of
        (objID, s1) \<Rightarrow> Inr (emit (Send a (PERSISTENT_ID_RESPONSE rid objID)) s1))"
| "HandleMaster env a (MSG_MASTER_REQUEST_ZONE_TRANSFER rid ms zoneID zoneClone) s =
     (case GetInstance env (ucast zoneID) False zoneClone s of
        (inp, s1) \<Rightarrow>
          (case deref s1 inp of
             None \<Rightarrow> Inl NullPointerDereference
           | Some i \<Rightarrow>
               let req = \<lparr>requestID = rid, mythranShift = (ms \<noteq> 0), requester = a\<rparr>
               in if \<not> ready i
                  then Inr (modify inp (\<lambda>i. i\<lparr>pendingRequests := pendingRequests i @ [req]\<rparr>) s1)
                  else Inr (RequestAffirmation inp req s1)))"
| "HandleMaster env a (MSG_MASTER_SERVER_INFO theirPort theirZoneID theirInstanceID theirServerType theirIP) s =
     (let s1 =
        (if theirServerType = World \<and> \<not> IsPortInUse (ucast theirPort) s
         then snd (AddInstance
                ((new_Instance theirIP (ucast theirPort) (ucast theirZoneID)
                    (ucast theirInstanceID) 0 12 12)
                   \<lparr>sysAddr := \<lparr>binaryAddress = binaryAddress a, port = port a\<rparr>\<rparr>) s)
         else (case FindInstance (ucast theirZoneID) (ucast theirInstanceID) s of
                 Some (p, i) \<Rightarrow> modify p (\<lambda>i. i\<lparr>sysAddr := a\<rparr>) s
               | None \<Rightarrow> s))
      in Inr (if theirServerType = Chat
              then s1\<lparr>chatServerMasterPeerSysAddr :=
                        \<lparr>binaryAddress = binaryAddress a, port = port a\<rparr>\<rparr>
              else s1))"
| "HandleMaster env a (MSG_MASTER_SET_SESSION_KEY sessionKey username) s =
     (let s1 =
        (case find (\<lambda>(k, v). v = username) (activeSessions s) of
           Some (k, v) \<Rightarrow>
             emit (Broadcast (NEW_SESSION_ALERT sessionKey username))
               (s\<lparr>activeSessions := map_erase k (activeSessions s)\<rparr>)
         | None \<Rightarrow> s)
      in Inr (s1\<lparr>activeSessions := map_insert (sessionKey, username) (activeSessions s1)\<rparr>))"
| "HandleMaster env a (MSG_MASTER_REQUEST_SESSION_KEY username) s =
     (case find (\<lambda>(k, v). v = username) (activeSessions s) of
        Some (k, v) \<Rightarrow> Inr (emit (Send a (SESSION_KEY_RESPONSE k v)) s)
      | None \<Rightarrow> Inr s)"
| "HandleMaster env a (MSG_MASTER_PLAYER_ADDED theirZoneID theirInstanceID) s =
     (case FindInstance theirZoneID theirInstanceID s of
        Some (p, i) \<Rightarrow> Inr (modify p (\<lambda>i. i\<lparr>players := players i + 1\<rparr>) s)
      | None \<Rightarrow> Inr s)"
| "HandleMaster env a (MSG_MASTER_PLAYER_REMOVED theirZoneID theirInstanceID) s =
     (case FindInstance theirZoneID theirInstanceID s of
        Some (p, i) \<Rightarrow> Inr (modify p (\<lambda>i. i\<lparr>players := players i - 1\<rparr>) s)
      | None \<Rightarrow> Inr s)"
| "HandleMaster env a (MSG_MASTER_CREATE_PRIVATE_ZONE mapId cloneId password) s =
     Inr (snd (CreatePrivateInstance env (ucast mapId) cloneId (c_str password) s))"
| "HandleMaster env a (MSG_MASTER_REQUEST_PRIVATE_ZONE rid ms password) s =
     (case FindPrivateInstance (c_str password) s of
        None \<Rightarrow> Inr s
      | Some (p, i) \<Rightarrow>
          Inr (emit (Send a (ZONE_TRANSFER_RESPONSE rid (ms \<noteq> 0) (mapID i) (instanceID i)
                               (cloneID i) (ip i) (instancePort i))) s))"
| "HandleMaster env a (MSG_MASTER_WORLD_READY zoneID iid) s =
     (case FindInstance zoneID iid s of
        None \<Rightarrow> Inr s
      | Some (p, i) \<Rightarrow> Inr (ReadyInstance p s))"
| "HandleMaster env a (MSG_MASTER_PREP_ZONE zoneID) s =
     Inr (snd (GetInstance env (ucast zoneID) False 0 s))"
| "HandleMaster env a (MSG_MASTER_AFFIRM_TRANSFER_RESPONSE rid) s =
     (case GetInstanceBySysAddr a s of
        None \<Rightarrow> Inr s
      | Some (p, i) \<Rightarrow> Inr (AffirmTransfer p rid s))"
| "HandleMaster env a MSG_MASTER_SHUTDOWN_RESPONSE s =
     (case GetInstanceBySysAddr a s of
        None \<Rightarrow> Inr s
      | Some (p, i) \<Rightarrow> Inr (modify p (\<lambda>i. i\<lparr>shuttingDown := True\<rparr>) s))"
| "HandleMaster env a MSG_MASTER_SHUTDOWN_UNIVERSE s = Inr (s\<lparr>shouldShutdown := True\<rparr>)"
| "HandleMaster env a (MSG_MASTER_SHUTDOWN_INSTANCE zoneID iid) s =
     (case FindInstance (ucast zoneID) iid s of
        Some (p, i) \<Rightarrow> Inr (Shutdown p s)
      | None \<Rightarrow> Inr s)"
| "HandleMaster env a (MSG_MASTER_GET_INSTANCES objectID zoneOpt respondingZoneID respondingInstanceID) s =
     (let zoneID = (case zoneOpt of None \<Rightarrow> LWOMAPID_INVALID env | Some z \<Rightarrow> z)
      in case FindInstance respondingZoneID respondingInstanceID s of
           None \<Rightarrow> Inl NullPointerDereference
         | Some (p, i) \<Rightarrow>
             let respondingSysAddr = sysAddr i;
                 instances = (if zoneID = LWOMAPID_INVALID env then m_Instances s
                              else FindInstancesByMapID zoneID s)
             in Inr (emit (Send respondingSysAddr
                       (RESPOND_INSTANCES objectID
                          (map (\<lambda>(p, i). (mapID i, cloneID i, instanceID i)) instances))) s))"
| "HandleMaster env a MSG_MASTER_UNKNOWN s = Inr s"

definition HandlePacket :: "Env \<Rightarrow> Packet \<Rightarrow> MasterState \<Rightarrow> error + MasterState" where
  "HandlePacket env packet s =
     (let s1 = (if data0 packet = ID_DISCONNECTION_NOTIFICATION
                then peer_gone (systemAddress packet) s else s);
          s2 = (if data0 packet = ID_CONNECTION_LOST
                then peer_gone (systemAddress packet) s1 else s1)
      in case master packet of
           None \<Rightarrow> Inr s2
         | Some m \<Rightarrow> HandleMaster env (systemAddress packet) m s2)"

text \<open>A packet written with the header of the master subsystem: byte 0 is a user packet.\<close>

definition master_packet :: "SystemAddress \<Rightarrow> MasterMessage \<Rightarrow> Packet" where
  "master_packet a m = \<lparr>data0 = ID_USER_PACKET, systemAddress = a, master = Some m\<rparr>"

section \<open>The control loop of main\<close>

text \<open>
  The body of the first \<^verbatim>\<open>for\<close> loop of a tick (lines 316-337) for one pointer of the
  snapshot. A pointer of the registry is never null, so the \<^verbatim>\<open>break\<close> on
  \<^verbatim>\<open>nullptr\<close> has no branch here. The first case of \<open>deref\<close> is a pointer of the
  snapshot whose instance has left the registry since; the first loop removes nothing,
  so it is not taken there.
\<close>

definition tick_instance :: "Env \<Rightarrow> nat \<Rightarrow> MasterState \<Rightarrow> MasterState" where
  "tick_instance env p s =
     (case deref s p of
        None \<Rightarrow> s
      | Some i \<Rightarrow>
          let affirmTimeout = (if pendingAffirmations i \<noteq> [] then affirmationTimeout i + 1 else 0);
              s1 = modify p (\<lambda>i. i\<lparr>affirmationTimeout := affirmTimeout\<rparr>) s
          in if affirmTimeout = 1000
             then RedirectPendingRequests env p
                    (modify p (\<lambda>i. i\<lparr>shuttingDown := True\<rparr>) (Shutdown p s1))
             else s1)"

text \<open>
  The body of the second loop (lines 340-348): a dead instance is removed. Removing one
  pointer leaves the others of the snapshot in the registry.
\<close>

definition reap :: "nat \<Rightarrow> MasterState \<Rightarrow> MasterState" where
  "reap p s =
     (case deref s p of
        None \<Rightarrow> s
      | Some i \<Rightarrow> if shutdownComplete i then RemoveInstance p s else s)"

record MainLoop =
  state :: MasterState
  framesSinceLastFlush :: int
  framesSinceLastSQLPing :: int
  framesSinceKillUniverseCommand :: int

datatype LoopStep = Continue MainLoop | Break MainLoop

text \<open>
  One iteration of \<^verbatim>\<open>while (true)\<close> (lines 268-352); the argument is what
  \<^verbatim>\<open>Receive()\<close> returned. Both loops run over the copy of the registry taken at
  line 314.
\<close>

definition main_iteration :: "Env \<Rightarrow> Packet option \<Rightarrow> MainLoop \<Rightarrow> error + LoopStep" where
  "main_iteration env packet l =
     (case (case packet of
              Some pk \<Rightarrow> HandlePacket env pk (state l)
            | None \<Rightarrow> Inr (state l)) of
        Inl e \<Rightarrow> Inl e
      | Inr s1 \<Rightarrow>
          let s2 = (if framesSinceLastFlush l \<ge> 900 then emit LoggerFlush s1 else s1);
              flush = (if framesSinceLastFlush l \<ge> 900 then 0 else framesSinceLastFlush l + 1);
              s3 = (if framesSinceLastSQLPing l \<ge> 40000 then emit SqlPing s2 else s2);
              ping = (if framesSinceLastSQLPing l \<ge> 40000 then 0 else framesSinceLastSQLPing l + 1)
          in if shouldShutdown s3 \<and> framesSinceKillUniverseCommand l \<ge> 40000
             then Inr (Break \<lparr>state = s3, framesSinceLastFlush = flush,
                               framesSinceLastSQLPing = ping,
                               framesSinceKillUniverseCommand = framesSinceKillUniverseCommand l\<rparr>)
             else
               let kill = (if shouldShutdown s3 then framesSinceKillUniverseCommand l + 1
                           else framesSinceKillUniverseCommand l);
                   instances = GetInstances s3;
                   s4 = fold (tick_instance env) instances s3;
                   s5 = fold reap instances s4
               in Inr (Continue \<lparr>state = s5, framesSinceLastFlush = flush,
                                   framesSinceLastSQLPing = ping,
                                   framesSinceKillUniverseCommand = kill\<rparr>))"


section \<open>ShutdownSequence\<close>


text \<open>
  The flag \<^verbatim>\<open>done\<close> of an iteration of the drain loop (lines 868-878): every
  instance left in the registry has \<open>shutdownComplete\<close>.
\<close>

definition all_done :: "MasterState \<Rightarrow> bool" where
  "all_done s = list_all (\<lambda>(p, i). shutdownComplete i) (m_Instances s)"





section \<open>The registry over a tick\<close>

text \<open>
  The pointers of the registry are distinct and were all handed out already: what
  \<^verbatim>\<open>new\<close> and \<^verbatim>\<open>delete\<close> guarantee of the objects of a vector of pointers.
\<close>

definition wf_registry :: "MasterState \<Rightarrow> bool" where
  "wf_registry s = (distinct (map fst (m_Instances s))
                    \<and> (\<forall>q \<in> set (map fst (m_Instances s)). q < nextPtr s))"

(* structure: keys and nextPtr *)





text \<open>
  An instance as another visit of the same tick may leave it: only its queues can have
  grown, and nothing at all changes once it is shutting down.
\<close>

definition grows :: "Instance \<Rightarrow> Instance \<Rightarrow> bool" where
  "grows j j' = (j' = j\<lparr>pendingRequests := pendingRequests j',
                         pendingAffirmations := pendingAffirmations j'\<rparr>
     \<and> set (pendingRequests j) \<subseteq> set (pendingRequests j')
     \<and> set (pendingAffirmations j) \<subseteq> set (pendingAffirmations j')
     \<and> (shuttingDown j \<longrightarrow> j' = j))"

text \<open>The counter of a pointer handed out already, if the pointer is still registered.\<close>

definition timeout_is :: "MasterState \<Rightarrow> nat \<Rightarrow> 32 word \<Rightarrow> bool" where
  "timeout_is s p c = (p < nextPtr s \<and> (\<forall>i. deref s p = Some i \<longrightarrow> affirmationTimeout i = c))"

section \<open>Observations and concrete states\<close>

text \<open>The messages sent so far: the sends and broadcasts of the trace.\<close>

definition sent :: "MasterState \<Rightarrow> Effect list" where
  "sent s = filter (\<lambda>e. case e of Send a m \<Rightarrow> True | Broadcast m \<Rightarrow> True | _ \<Rightarrow> False) (effects s)"

text \<open>
  A launch policy, the state of a master that has just started, peers and world
  instances: the inputs the theorems below are run on.
\<close>

definition env0 :: Env where
  "env0 = \<lparr>GetFreePort = (\<lambda>known. 2000 + of_nat (length known)),
           FreshInstanceID = (\<lambda>known. 1 + of_nat (length known)),
           LWOMAPID_INVALID = 0\<rparr>"

definition fresh_master :: MasterState where
  "fresh_master = \<lparr>m_Instances = [], nextPtr = 0, mExternalIP = ''10.0.0.1'', activeSessions = [],
         shouldShutdown = False, shutdownSequenceStarted = False,
         chatServerMasterPeerSysAddr = \<lparr>binaryAddress = 0, port = 0\<rparr>,
         currentPersistentID = 0, effects = []\<rparr>"

definition peer :: "nat \<Rightarrow> SystemAddress" where
  "peer n = \<lparr>binaryAddress = 167772160 + of_nat n, port = 3000 + of_nat n\<rparr>"

definition world :: "16 word \<Rightarrow> 16 word \<Rightarrow> 16 word \<Rightarrow> nat \<Rightarrow> Instance" where
  "world m iid pt n = (new_Instance ''10.0.0.5'' pt m iid 0 12 12)\<lparr>sysAddr := peer n\<rparr>"

definition one_world :: MasterState where
  "one_world = fresh_master\<lparr>m_Instances := [(0, world 1200 3 2000 1)], nextPtr := 1\<rparr>"

definition one_private :: MasterState where
  "one_private = fresh_master\<lparr>m_Instances :=
             [(0, (world 1300 1 2000 1)\<lparr>cloneID := 5, privatePassword := Some ''a''\<rparr>)],
          nextPtr := 1\<rparr>"

definition loop_start :: MainLoop where
  "loop_start = \<lparr>state = fresh_master, framesSinceLastFlush = 0, framesSinceLastSQLPing = 0,
          framesSinceKillUniverseCommand = 0\<rparr>"

text \<open>
  An input of the drain loop: nothing for two iterations, then the disconnection of
  peer 1.
\<close>

definition rx1 :: "nat \<Rightarrow> Packet option" where
  "rx1 n = (if n = 2 then Some \<lparr>data0 = ID_DISCONNECTION_NOTIFICATION, systemAddress = peer 1,
                                 master = None\<rparr> else None)"





section \<open>Basic facts\<close>

lemmas model_defs = HandlePacket_def master_packet_def peer_gone_def emit_def GetInstances_def
  deref_def modify_def AddInstance_def RemoveInstance_def GetInstanceBySysAddr_def FindInstance_def
  FindInstancesByMapID_def FindPrivateInstance_def IsPortInUse_def new_Instance_def launch_def
  GetInstance_def CreatePrivateInstance_def Shutdown_def RequestAffirmation_def
  transfer_response_def AffirmTransfer_def ReadyInstance_def submit_def redirect_one_def
  RedirectPendingRequests_def GeneratePersistentID_def map_erase_def map_insert_def c_str_def
  sent_def env0_def fresh_master_def peer_def world_def one_world_def one_private_def loop_start_def all_done_def rx1_def

lemma HandlePacket_master_packet:
  "HandlePacket env (master_packet a m) s = HandleMaster env a m s"
  by (simp add: HandlePacket_def master_packet_def)

lemma find_Some_set: "find P xs = Some x \<Longrightarrow> x \<in> set xs \<and> P x"
  by (induction xs) (auto split: if_splits)

lemma map_of_modify:
  "map_of (map (\<lambda>(q, i). if q = p then (q, f i) else (q, i)) xs) q
     = (if q = p then map_option f (map_of xs p) else map_of xs q)"
  by (induction xs) auto

lemma deref_modify: "deref (modify p f s) q = (if q = p then map_option f (deref s p) else deref s q)"
  by (simp add: deref_def modify_def map_of_modify)

lemma deref_emit [simp]: "deref (emit e s) p = deref s p"
  by (simp add: deref_def emit_def)

lemma GetInstance_deref:
  "GetInstance env m b c s = (p, s') \<Longrightarrow> \<exists>i. deref s' p = Some i"
proof (cases "find (\<lambda>(p, i). \<not> shuttingDown i \<and> privatePassword i = None \<and> mapID i = m
                           \<and> players i < softCap i) (m_Instances s)")
  case None
  assume "GetInstance env m b c s = (p, s')"
  with None have "launch env m c None s = (p, s')" by (simp add: GetInstance_def)
  then show ?thesis
    by (cases "map_of (m_Instances s) (nextPtr s)")
       (auto simp: launch_def AddInstance_def deref_def emit_def Let_def map_add_def)
next
  case (Some x)
  assume g: "GetInstance env m b c s = (p, s')"
  obtain q i where x: "x = (q, i)" by (cases x)
  from Some x have "(q, i) \<in> set (m_Instances s)" by (auto dest: find_Some_set)
  moreover from g Some x have "q = p" "s' = s" by (auto simp: GetInstance_def)
  ultimately have "(p, i) \<in> set (m_Instances s')" by simp
  from weak_map_of_SomeI [OF this] show ?thesis by (simp add: deref_def)
qed

lemma HandleMaster_Inl:
  "HandleMaster env a m s = Inl NullPointerDereference \<longleftrightarrow>
     (\<exists>objectID zoneOpt rz ri. m = MSG_MASTER_GET_INSTANCES objectID zoneOpt rz ri
        \<and> FindInstance rz ri s = None)"
proof (cases m)
  case (MSG_MASTER_REQUEST_ZONE_TRANSFER rid ms zoneID zoneClone)
  obtain p s' where g: "GetInstance env (ucast zoneID) False zoneClone s = (p, s')"
    by (cases "GetInstance env (ucast zoneID) False zoneClone s")
  from GetInstance_deref [OF g] obtain i where "deref s' p = Some i" ..
  with g MSG_MASTER_REQUEST_ZONE_TRANSFER show ?thesis by (simp add: Let_def)
qed (auto simp: Let_def split: option.splits prod.splits)

lemma sent_emit_LaunchWorld [simp]: "sent (emit (LaunchWorld a b c d e f) s) = sent s"
  by (simp add: sent_def emit_def)

lemma sent_emit_Send [simp]: "sent (emit (Send a m) s) = sent s @ [Send a m]"
  by (simp add: sent_def emit_def)

lemma sent_modify [simp]: "sent (modify p f s) = sent s"
  by (simp add: sent_def modify_def)

lemma sent_GetInstance: "GetInstance env m b c s = (p, s') \<Longrightarrow> sent s' = sent s"
  by (auto simp: GetInstance_def launch_def AddInstance_def Let_def sent_def emit_def
      split: option.splits prod.splits)


lemma map_fst_modify [simp]: "map fst (m_Instances (modify p f s)) = map fst (m_Instances s)"
  by (simp add: modify_def case_prod_beta cong: if_cong)

subsection \<open>What leaves the shutdown flag alone\<close>

lemma fold_invariant: "(\<And>x s. P s \<Longrightarrow> P (f x s)) \<Longrightarrow> P s \<Longrightarrow> P (fold f xs s)"
  by (induction xs arbitrary: s) auto

lemma shouldShutdown_emit [simp]: "shouldShutdown (emit e s) = shouldShutdown s"
  by (simp add: emit_def)

lemma shouldShutdown_modify [simp]: "shouldShutdown (modify p f s) = shouldShutdown s"
  by (simp add: modify_def)

lemma shouldShutdown_RemoveInstance [simp]: "shouldShutdown (RemoveInstance p s) = shouldShutdown s"
  by (simp add: RemoveInstance_def)

lemma shouldShutdown_launch [simp]: "shouldShutdown (snd (launch env m c pw s)) = shouldShutdown s"
  by (simp add: launch_def AddInstance_def Let_def)

lemma shouldShutdown_GetInstance [simp]:
  "shouldShutdown (snd (GetInstance env m b c s)) = shouldShutdown s"
  by (simp add: GetInstance_def split: option.splits)

lemma shouldShutdown_Shutdown [simp]: "shouldShutdown (Shutdown p s) = shouldShutdown s"
  by (simp add: Shutdown_def split: option.splits)

lemma shouldShutdown_RequestAffirmation [simp]:
  "shouldShutdown (RequestAffirmation p r s) = shouldShutdown s"
  by (simp add: RequestAffirmation_def split: option.splits)

lemma shouldShutdown_AffirmTransfer [simp]:
  "shouldShutdown (AffirmTransfer p rid s) = shouldShutdown s"
  by (simp add: AffirmTransfer_def split: option.splits)

lemma shouldShutdown_ReadyInstance [simp]: "shouldShutdown (ReadyInstance p s) = shouldShutdown s"
proof (cases "deref s p")
  case None
  then show ?thesis by (simp add: ReadyInstance_def)
next
  case (Some i)
  have "shouldShutdown (fold (RequestAffirmation p) (pendingRequests i)
          (modify p (\<lambda>i. i\<lparr>ready := True, pendingRequests := []\<rparr>) s)) = shouldShutdown s"
    by (rule fold_invariant) simp_all
  with Some show ?thesis by (simp add: ReadyInstance_def)
qed

lemma shouldShutdown_GetInstance':
  "GetInstance env m b c s = (p, s') \<Longrightarrow> shouldShutdown s' = shouldShutdown s"
  using shouldShutdown_GetInstance [of env m b c s] by simp

lemma shouldShutdown_submit [simp]: "shouldShutdown (submit p r s) = shouldShutdown s"
  by (simp add: submit_def split: option.splits)

lemma shouldShutdown_redirect_one [simp]:
  "shouldShutdown (redirect_one env m c r s) = shouldShutdown s"
  by (auto simp: redirect_one_def split: prod.splits dest: shouldShutdown_GetInstance')

lemma shouldShutdown_RedirectPendingRequests [simp]:
  "shouldShutdown (RedirectPendingRequests env p s) = shouldShutdown s"
proof (cases "deref s p")
  case None
  then show ?thesis by (simp add: RedirectPendingRequests_def)
next
  case (Some i)
  have "shouldShutdown (fold (redirect_one env (mapID i) (cloneID i))
          (pendingAffirmations i @ pendingRequests i)
          (modify p (\<lambda>i. i\<lparr>pendingAffirmations := [], pendingRequests := []\<rparr>) s)) = shouldShutdown s"
    by (rule fold_invariant) simp_all
  with Some show ?thesis by (simp add: RedirectPendingRequests_def)
qed

lemma shouldShutdown_tick_instance [simp]:
  "shouldShutdown (tick_instance env p s) = shouldShutdown s"
  by (simp add: tick_instance_def Let_def split: option.splits)

lemma shouldShutdown_reap [simp]: "shouldShutdown (reap p s) = shouldShutdown s"
  by (simp add: reap_def split: option.splits)

lemma shouldShutdown_peer_gone [simp]: "shouldShutdown (peer_gone a s) = shouldShutdown s"
  by (simp add: peer_gone_def Let_def split: option.splits)

lemma shouldShutdown_HandleMaster:
  "HandleMaster env a m s = Inr s' \<Longrightarrow> shouldShutdown s \<Longrightarrow> shouldShutdown s'"
proof (cases m)
  case (MSG_MASTER_REQUEST_ZONE_TRANSFER rid ms zoneID zoneClone)
  assume h: "HandleMaster env a m s = Inr s'" and ss: "shouldShutdown s"
  with MSG_MASTER_REQUEST_ZONE_TRANSFER show ?thesis
    by (auto simp: Let_def split: prod.splits option.splits if_splits
        dest: shouldShutdown_GetInstance')
next
  case (MSG_MASTER_PREP_ZONE z)
  assume h: "HandleMaster env a m s = Inr s'" and ss: "shouldShutdown s"
  with MSG_MASTER_PREP_ZONE show ?thesis by auto
next
  case (MSG_MASTER_CREATE_PRIVATE_ZONE mapId cloneId password)
  assume h: "HandleMaster env a m s = Inr s'" and ss: "shouldShutdown s"
  with MSG_MASTER_CREATE_PRIVATE_ZONE show ?thesis by (auto simp: CreatePrivateInstance_def)
qed (auto simp: Let_def AddInstance_def GeneratePersistentID_def split: option.splits prod.splits if_splits)

lemma shouldShutdown_HandlePacket:
  "HandlePacket env pk s = Inr s' \<Longrightarrow> shouldShutdown s \<Longrightarrow> shouldShutdown s'"
  by (auto simp: HandlePacket_def Let_def split: option.splits if_splits
      dest: shouldShutdown_HandleMaster)

lemma shouldShutdown_fold_tick [simp]:
  "shouldShutdown (fold (tick_instance env) ps s) = shouldShutdown s"
  by (induction ps arbitrary: s) simp_all

lemma shouldShutdown_fold_reap [simp]: "shouldShutdown (fold reap ps s) = shouldShutdown s"
  by (induction ps arbitrary: s) simp_all





lemma kill_counter_unused:
  assumes "main_iteration env pk l = Inr (Continue l')"
    and "shouldShutdown (state l) \<or> framesSinceKillUniverseCommand l = 0"
  shows "shouldShutdown (state l') \<or> framesSinceKillUniverseCommand l' = 0"
proof (cases "case pk of Some pk \<Rightarrow> HandlePacket env pk (state l) | None \<Rightarrow> Inr (state l)")
  case (Inl e)
  with assms(1) show ?thesis by (simp add: main_iteration_def)
next
  case (Inr s1)
  have "shouldShutdown (state l) \<Longrightarrow> shouldShutdown s1"
    using Inr by (auto split: option.splits dest: shouldShutdown_HandlePacket)
  with Inr assms show ?thesis
    by (auto simp: main_iteration_def Let_def split: if_splits)
qed

subsection \<open>The drain loop, iteration by iteration\<close>

lemma m_Instances_Shutdown [simp]: "m_Instances (Shutdown p s) = m_Instances s"
  by (simp add: Shutdown_def emit_def split: option.splits)






subsection \<open>The registry stays well formed\<close>

lemma keys_emit [simp]: "m_Instances (emit e s) = m_Instances s" "nextPtr (emit e s) = nextPtr s"
  by (simp_all add: emit_def)

lemma nextPtr_modify [simp]: "nextPtr (modify p f s) = nextPtr s"
  by (simp add: modify_def)

lemma keys_Shutdown [simp]: "nextPtr (Shutdown p s) = nextPtr s"
  by (simp add: Shutdown_def split: option.splits)

lemma keys_RequestAffirmation [simp]:
  "map fst (m_Instances (RequestAffirmation p r s)) = map fst (m_Instances s)"
  "nextPtr (RequestAffirmation p r s) = nextPtr s"
  by (simp_all add: RequestAffirmation_def split: option.splits)

lemma keys_submit [simp]:
  "map fst (m_Instances (submit p r s)) = map fst (m_Instances s)"
  "nextPtr (submit p r s) = nextPtr s"
  by (simp_all add: submit_def split: option.splits)

lemma keys_AffirmTransfer [simp]:
  "map fst (m_Instances (AffirmTransfer p rid s)) = map fst (m_Instances s)"
  "nextPtr (AffirmTransfer p rid s) = nextPtr s"
  by (simp_all add: AffirmTransfer_def split: option.splits)

lemma keys_fold_RequestAffirmation [simp]:
  "map fst (m_Instances (fold (RequestAffirmation p) rs s)) = map fst (m_Instances s)"
  "nextPtr (fold (RequestAffirmation p) rs s) = nextPtr s"
  by (induction rs arbitrary: s) simp_all

lemma keys_ReadyInstance [simp]:
  "map fst (m_Instances (ReadyInstance p s)) = map fst (m_Instances s)"
  "nextPtr (ReadyInstance p s) = nextPtr s"
  by (simp_all add: ReadyInstance_def split: option.splits)

lemma wf_field_updates [simp]:
  "wf_registry (s\<lparr>shouldShutdown := b\<rparr>) = wf_registry s"
  "wf_registry (s\<lparr>activeSessions := m\<rparr>) = wf_registry s"
  "wf_registry (s\<lparr>chatServerMasterPeerSysAddr := a\<rparr>) = wf_registry s"
  "wf_registry (s\<lparr>currentPersistentID := n\<rparr>) = wf_registry s"
  "wf_registry (emit e s) = wf_registry s"
  "wf_registry (modify p f s) = wf_registry s"
  "wf_registry (Shutdown p s) = wf_registry s"
  "wf_registry (RequestAffirmation p r s) = wf_registry s"
  "wf_registry (AffirmTransfer p rid s) = wf_registry s"
  "wf_registry (ReadyInstance p s) = wf_registry s"
  "wf_registry (submit p r s) = wf_registry s"
  "wf_registry (s\<lparr>effects := es\<rparr>) = wf_registry s"
  by (simp_all add: wf_registry_def)

















lemma grows_refl [simp]: "grows j j"
  by (simp add: grows_def)








lemma launch_fst [simp]: "fst (launch env m c pw s) = nextPtr s"
  by (simp add: launch_def Let_def AddInstance_def)




















lemma nextPtr_redirect_one: "nextPtr s \<le> nextPtr (redirect_one env m c r s)"
  by (auto simp: redirect_one_def GetInstance_def launch_def AddInstance_def Let_def
      split: prod.splits option.splits)


lemma deref_field_updates [simp]:
  "deref (s\<lparr>shouldShutdown := b\<rparr>) p = deref s p"
  "deref (s\<lparr>activeSessions := m\<rparr>) p = deref s p"
  "deref (s\<lparr>chatServerMasterPeerSysAddr := a\<rparr>) p = deref s p"
  "deref (s\<lparr>currentPersistentID := n\<rparr>) p = deref s p"
  "deref (s\<lparr>effects := es\<rparr>) p = deref s p"
  by (simp_all add: deref_def)

lemma timeout_is_simps [simp]:
  "timeout_is (s\<lparr>shouldShutdown := b\<rparr>) p c = timeout_is s p c"
  "timeout_is (s\<lparr>activeSessions := m\<rparr>) p c = timeout_is s p c"
  "timeout_is (s\<lparr>chatServerMasterPeerSysAddr := a\<rparr>) p c = timeout_is s p c"
  "timeout_is (s\<lparr>currentPersistentID := n\<rparr>) p c = timeout_is s p c"
  "timeout_is (s\<lparr>effects := es\<rparr>) p c = timeout_is s p c"
  "timeout_is (emit e s) p c = timeout_is s p c"
  by (simp_all add: timeout_is_def)






lemma timeout_is_Shutdown [simp]: "timeout_is (Shutdown q s) p c = timeout_is s p c"
  by (simp add: Shutdown_def split: option.splits)


















section \<open>Private zones\<close>

text \<open>
  C4, as amended. A \<^verbatim>\<open>REQUEST_PRIVATE_ZONE(requestID, mythranShift, password)\<close> is
  looked up by \<^verbatim>\<open>password.c_str()\<close>, the bytes of the password before its first NUL.
  When a private instance has that password, the only thing the handler does is to send
  the requester one \<^verbatim>\<open>ZONE_TRANSFER_RESPONSE\<close> with the request id, the shift flag and
  the map, instance id, clone, ip and port of the instance: no \<^verbatim>\<open>PREP_ZONE\<close>, and the
  registry with every \<open>pendingAffirmations\<close> is as before. When none has, nothing is
  sent and the state is unchanged.
\<close>

theorem private_zone_request:
  "HandlePacket env (master_packet a (MSG_MASTER_REQUEST_PRIVATE_ZONE rid ms pw)) s =
     (case FindPrivateInstance (c_str pw) s of
        None \<Rightarrow> Inr s
      | Some (p, i) \<Rightarrow>
          Inr (s\<lparr>effects := effects s @
                 [Send a (ZONE_TRANSFER_RESPONSE rid (ms \<noteq> 0) (mapID i) (instanceID i)
                            (cloneID i) (ip i) (instancePort i))]\<rparr>))"
  by (simp add: HandlePacket_master_packet emit_def split: option.splits)

text \<open>
  C4 as stated fails for a password with a NUL byte: no instance of \<open>one_private\<close> has the
  password \<open>a\<close> followed by NUL, and yet the request is answered, with the instance whose
  password is \<open>a\<close>.
\<close>

theorem private_zone_nul_counterexample:
  "FindPrivateInstance [CHR ''a'', CHR 0x00] one_private = None
   \<and> HandlePacket env0
        (master_packet (peer 2) (MSG_MASTER_REQUEST_PRIVATE_ZONE 9 1 [CHR ''a'', CHR 0x00])) one_private
       = Inr (one_private\<lparr>effects :=
                   [Send (peer 2) (ZONE_TRANSFER_RESPONSE 9 True 1300 1 5 ''10.0.0.5'' 2000)]\<rparr>)"
  by (simp add: model_defs)

section \<open>Replies from unknown peers\<close>

text \<open>
  C8. An \<^verbatim>\<open>AFFIRM_TRANSFER_RESPONSE\<close> or a \<^verbatim>\<open>SHUTDOWN_RESPONSE\<close> from an address
  that no instance of the registry has leaves the whole state as it was: nothing is sent
  (the trace of effects is part of the state), and the registry, the session map and
  every field of every instance are unchanged.
\<close>

theorem unknown_peer_ignored:
  assumes "GetInstanceBySysAddr a s = None"
    and "m = MSG_MASTER_AFFIRM_TRANSFER_RESPONSE rid \<or> m = MSG_MASTER_SHUTDOWN_RESPONSE"
  shows "HandlePacket env (master_packet a m) s = Inr s"
  using assms by (auto simp: HandlePacket_master_packet)

theorem unknown_peer_ignored_witness:
  "GetInstanceBySysAddr (peer 2) one_world = None
   \<and> HandlePacket env0 (master_packet (peer 2) (MSG_MASTER_AFFIRM_TRANSFER_RESPONSE 7)) one_world = Inr one_world
   \<and> HandlePacket env0 (master_packet (peer 2) MSG_MASTER_SHUTDOWN_RESPONSE) one_world = Inr one_world"
proof -
  have h: "GetInstanceBySysAddr (peer 2) one_world = None"
    by (simp add: GetInstanceBySysAddr_def one_world_def fresh_master_def world_def peer_def)
  show ?thesis
    using h unknown_peer_ignored [OF h, of "MSG_MASTER_AFFIRM_TRANSFER_RESPONSE 7" 7 env0]
      unknown_peer_ignored [OF h, of MSG_MASTER_SHUTDOWN_RESPONSE 7 env0]
    by simp
qed

section \<open>The unguarded lookup of GET_INSTANCES\<close>

text \<open>
  C10. Handling a packet of the master subsystem dereferences a null pointer exactly when
  the packet is a \<^verbatim>\<open>GET_INSTANCES\<close> whose \<open>(respondingZoneID, respondingInstanceID)\<close>
  matches no instance of the registry: line 769 calls \<^verbatim>\<open>GetSysAddr()\<close> on the result
  of \<^verbatim>\<open>FindInstance\<close> before \<^verbatim>\<open>RESPOND_INSTANCES\<close> is sent, and no other handler
  uses a lookup that can fail without testing it. When the responding instance exists,
  the response goes to its address.
\<close>

theorem get_instances_null_dereference:
  "(HandlePacket env (master_packet a m) s = Inl NullPointerDereference \<longleftrightarrow>
      (\<exists>objectID zoneOpt rz ri. m = MSG_MASTER_GET_INSTANCES objectID zoneOpt rz ri
         \<and> FindInstance rz ri s = None))
   \<and> (\<forall>p i. FindInstance rz ri s = Some (p, i) \<longrightarrow>
         HandlePacket env (master_packet a (MSG_MASTER_GET_INSTANCES objectID zoneOpt rz ri)) s =
           Inr (emit (Send (sysAddr i)
                  (RESPOND_INSTANCES objectID
                     (map (\<lambda>(p, i). (mapID i, cloneID i, instanceID i))
                        (if (case zoneOpt of None \<Rightarrow> LWOMAPID_INVALID env | Some z \<Rightarrow> z)
                              = LWOMAPID_INVALID env
                         then m_Instances s
                         else FindInstancesByMapID
                                (case zoneOpt of None \<Rightarrow> LWOMAPID_INVALID env | Some z \<Rightarrow> z) s)))) s))"
  by (simp add: HandlePacket_master_packet HandleMaster_Inl Let_def)

theorem get_instances_null_dereference_witness:
  "FindInstance 1200 4 one_world = None
   \<and> HandlePacket env0 (master_packet (peer 1) (MSG_MASTER_GET_INSTANCES 77 None 1200 4)) one_world
        = Inl NullPointerDereference
   \<and> FindInstance 1200 3 one_world = Some (0, world 1200 3 2000 1)
   \<and> HandlePacket env0 (master_packet (peer 1) (MSG_MASTER_GET_INSTANCES 77 None 1200 3)) one_world
        = Inr (emit (Send (peer 1) (RESPOND_INSTANCES 77 [(1200, 0, 3)])) one_world)"
proof -
  have n: "FindInstance 1200 4 one_world = None" by (simp add: model_defs)
  have f: "FindInstance 1200 3 one_world = Some (0, world 1200 3 2000 1)" by (simp add: model_defs)
  have m: "m_Instances one_world = [(0, world 1200 3 2000 1)]" by (simp add: model_defs)
  have w: "mapID (world 1200 3 2000 1) = 1200" "cloneID (world 1200 3 2000 1) = 0"
    "instanceID (world 1200 3 2000 1) = 3" "sysAddr (world 1200 3 2000 1) = peer 1"
    by (simp_all add: world_def new_Instance_def)
  have e: "LWOMAPID_INVALID env0 = 0" by (simp add: env0_def)
  from get_instances_null_dereference
         [of env0 "peer 1" "MSG_MASTER_GET_INSTANCES 77 None 1200 4" one_world 1200 3 77 None]
  show ?thesis using n f m w e by simp
qed

section \<open>Zone transfer requests\<close>

text \<open>
  C1. For every \<^verbatim>\<open>REQUEST_ZONE_TRANSFER\<close>, zone resolution yields an instance of the
  registry. When that instance is not ready, the request \<open>{requestID, mythranShift,
  requester}\<close> is appended to its \<open>pendingRequests\<close> and no message is sent to anyone;
  when it is ready, the handler is \<^verbatim>\<open>RequestAffirmation\<close> on that instance with that
  request: \<^verbatim>\<open>PREP_ZONE\<close> goes to the instance and the request is in its
  \<open>pendingAffirmations\<close>.
\<close>

theorem zone_transfer_request:
  "\<exists>inp s1 i.
     GetInstance env (ucast zoneID) False zoneClone s = (inp, s1) \<and> deref s1 inp = Some i \<and>
     (let req = \<lparr>requestID = rid, mythranShift = (ms \<noteq> 0), requester = a\<rparr>;
          r = HandlePacket env
                (master_packet a (MSG_MASTER_REQUEST_ZONE_TRANSFER rid ms zoneID zoneClone)) s
      in if \<not> ready i
         then \<exists>s'. r = Inr s'
                \<and> deref s' inp = Some (i\<lparr>pendingRequests := pendingRequests i @ [req]\<rparr>)
                \<and> sent s' = sent s
         else r = Inr (RequestAffirmation inp req s1)
                \<and> deref (RequestAffirmation inp req s1) inp
                    = Some (i\<lparr>pendingAffirmations := List.insert req (pendingAffirmations i)\<rparr>)
                \<and> sent (RequestAffirmation inp req s1)
                    = sent s @ [Send (sysAddr i) (PREP_ZONE (ucast (mapID i)))])"
proof -
  obtain inp s1 where g: "GetInstance env (ucast zoneID) False zoneClone s = (inp, s1)"
    by (cases "GetInstance env (ucast zoneID) False zoneClone s")
  from GetInstance_deref [OF g] obtain i where d: "deref s1 inp = Some i" ..
  have s: "sent s1 = sent s" by (rule sent_GetInstance [OF g])
  show ?thesis
  proof (intro exI conjI)
    show "GetInstance env (ucast zoneID) False zoneClone s = (inp, s1)" by (rule g)
    show "deref s1 inp = Some i" by (rule d)
    show "let req = \<lparr>requestID = rid, mythranShift = (ms \<noteq> 0), requester = a\<rparr>;
          r = HandlePacket env
                (master_packet a (MSG_MASTER_REQUEST_ZONE_TRANSFER rid ms zoneID zoneClone)) s
      in if \<not> ready i
         then \<exists>s'. r = Inr s'
                \<and> deref s' inp = Some (i\<lparr>pendingRequests := pendingRequests i @ [req]\<rparr>)
                \<and> sent s' = sent s
         else r = Inr (RequestAffirmation inp req s1)
                \<and> deref (RequestAffirmation inp req s1) inp
                    = Some (i\<lparr>pendingAffirmations := List.insert req (pendingAffirmations i)\<rparr>)
                \<and> sent (RequestAffirmation inp req s1)
                    = sent s @ [Send (sysAddr i) (PREP_ZONE (ucast (mapID i)))]"
      using g d s
      by (simp add: HandlePacket_master_packet Let_def deref_modify RequestAffirmation_def)
  qed
qed

section \<open>Session keys\<close>

text \<open>
  What \<^verbatim>\<open>SET_SESSION_KEY(k, u)\<close> does when the key is not held by another user: on a
  session map with at most one entry of \<open>u\<close>, the map afterwards has exactly the entry
  \<open>(k, u)\<close> for \<open>u\<close>, and \<^verbatim>\<open>NEW_SESSION_ALERT\<close> was broadcast exactly when \<open>u\<close>
  had an entry before.
\<close>

lemma filter_map_erase:
  "filter (\<lambda>kv. snd kv = u) (map_erase k m) = filter (\<lambda>kv. snd kv = u \<and> fst kv \<noteq> k) m"
  by (induction m) (auto simp: map_erase_def)

lemma find_username_None:
  "find (\<lambda>(k, v). v = u) m = None \<Longrightarrow> filter (\<lambda>kv. snd kv = u) m = []"
  by (induction m) (auto split: if_splits)

lemma find_username_Some:
  "find (\<lambda>(k, v). v = u) m = Some (k, v) \<Longrightarrow> length (filter (\<lambda>kv. snd kv = u) m) \<le> 1
     \<Longrightarrow> filter (\<lambda>kv. snd kv = u) m = [(k, u)]"
  by (induction m) (auto split: if_splits dest: find_username_None)

lemma sorted_map_erase: "sorted (map fst m) \<Longrightarrow> sorted (map fst (map_erase k m))"
  by (induction m) (auto simp: map_erase_def)

lemma set_session_key_without_collision:
  assumes srt: "sorted (map fst (activeSessions s))"
    and one: "length (filter (\<lambda>kv. snd kv = u) (activeSessions s)) \<le> 1"
    and free: "\<forall>v. (k, v) \<in> set (activeSessions s) \<longrightarrow> v = u"
  shows "\<exists>s'. HandlePacket env (master_packet a (MSG_MASTER_SET_SESSION_KEY k u)) s = Inr s'
     \<and> filter (\<lambda>kv. snd kv = u) (activeSessions s') = [(k, u)]
     \<and> effects s' = effects s @
          (if find (\<lambda>(k, v). v = u) (activeSessions s) = None then []
           else [Broadcast (NEW_SESSION_ALERT k u)])"
proof (cases "find (\<lambda>(k, v). v = u) (activeSessions s)")
  case None
  then have nou: "filter (\<lambda>kv. snd kv = u) (activeSessions s) = []" by (rule find_username_None)
  then have "\<forall>kv \<in> set (activeSessions s). snd kv \<noteq> u" by (simp add: filter_empty_conv)
  with free have "k \<notin> fst ` set (activeSessions s)" by force
  with None nou srt show ?thesis
    by (simp add: HandlePacket_master_packet map_insert_def filter_insort)
next
  case (Some x)
  obtain k' v where x: "x = (k', v)" by (cases x)
  with Some have f: "find (\<lambda>(k, v). v = u) (activeSessions s) = Some (k', v)" by simp
  from find_username_Some [OF f one] have only: "filter (\<lambda>kv. snd kv = u) (activeSessions s) = [(k', u)]" .
  have gone: "filter (\<lambda>kv. snd kv = u) (map_erase k' (activeSessions s)) = []"
  proof -
    have "filter (\<lambda>kv. snd kv = u \<and> fst kv \<noteq> k') (activeSessions s)
        = filter (\<lambda>kv. fst kv \<noteq> k') (filter (\<lambda>kv. snd kv = u) (activeSessions s))"
      by (simp add: conj_commute)
    then show ?thesis by (simp add: filter_map_erase only)
  qed
  have "k \<notin> fst ` set (map_erase k' (activeSessions s))"
  proof
    assume "k \<in> fst ` set (map_erase k' (activeSessions s))"
    then obtain w where w: "(k, w) \<in> set (activeSessions s)" "k \<noteq> k'"
      by (auto simp: map_erase_def)
    with free have "w = u" by simp
    with w have "(k, u) \<in> set (filter (\<lambda>kv. snd kv = u) (activeSessions s))" by simp
    with only w show False by simp
  qed
  with f gone sorted_map_erase [OF srt, of k'] show ?thesis
    by (simp add: HandlePacket_master_packet map_insert_def filter_insort emit_def)
qed

text \<open>
  C3, at the input where the code fails it: the key 5 is registered for \<open>bob\<close>, then
  \<^verbatim>\<open>SET_SESSION_KEY(5, alice)\<close> arrives. \<^verbatim>\<open>std::map::insert\<close> does not replace the
  entry of a key that is present, so the map still holds only \<open>(5, bob)\<close> and there is no
  entry for \<open>alice\<close>.
\<close>

theorem session_key_collision:
  "HandlePacket env0 (master_packet (peer 1) (MSG_MASTER_SET_SESSION_KEY 5 ''bob'')) fresh_master
     = Inr (fresh_master\<lparr>activeSessions := [(5, ''bob'')]\<rparr>)
   \<and> HandlePacket env0 (master_packet (peer 1) (MSG_MASTER_SET_SESSION_KEY 5 ''alice''))
       (fresh_master\<lparr>activeSessions := [(5, ''bob'')]\<rparr>)
     = Inr (fresh_master\<lparr>activeSessions := [(5, ''bob'')]\<rparr>)"
  by (simp add: model_defs)

section \<open>SERVER_INFO\<close>




section \<open>Lost peers\<close>

text \<open>
  C9. On \<^verbatim>\<open>ID_DISCONNECTION_NOTIFICATION\<close> and on \<^verbatim>\<open>ID_CONNECTION_LOST\<close>, a chat
  server is started if and only if the address of the peer is the remembered chat peer
  and \<open>shouldShutdown\<close> is not set, and the instance of the registry with that address,
  if there is one, is removed; nothing else changes.
\<close>

theorem peer_disconnect:
  assumes "data0 pk = ID_DISCONNECTION_NOTIFICATION \<or> data0 pk = ID_CONNECTION_LOST"
    and "master pk = None"
  shows "\<exists>s'. HandlePacket env pk s = Inr s'
     \<and> effects s' = effects s @
          (if systemAddress pk = chatServerMasterPeerSysAddr s \<and> \<not> shouldShutdown s
           then [StartChatServer] else [])
     \<and> m_Instances s' =
          (case GetInstanceBySysAddr (systemAddress pk) s of
             Some (p, i) \<Rightarrow> filter (\<lambda>(q, j). q \<noteq> p) (m_Instances s)
           | None \<Rightarrow> m_Instances s)"
  using assms
  by (auto simp: HandlePacket_def peer_gone_def emit_def RemoveInstance_def Let_def split: option.splits)

theorem peer_disconnect_witness:
  "HandlePacket env0 \<lparr>data0 = ID_DISCONNECTION_NOTIFICATION, systemAddress = peer 1, master = None\<rparr> one_world
     = Inr (one_world\<lparr>m_Instances := []\<rparr>)
   \<and> HandlePacket env0 \<lparr>data0 = ID_CONNECTION_LOST, systemAddress = peer 5, master = None\<rparr>
        (one_world\<lparr>chatServerMasterPeerSysAddr := peer 5\<rparr>)
     = Inr (one_world\<lparr>chatServerMasterPeerSysAddr := peer 5, effects := [StartChatServer]\<rparr>)
   \<and> HandlePacket env0 \<lparr>data0 = ID_CONNECTION_LOST, systemAddress = peer 5, master = None\<rparr>
        (one_world\<lparr>chatServerMasterPeerSysAddr := peer 5, shouldShutdown := True\<rparr>)
     = Inr (one_world\<lparr>chatServerMasterPeerSysAddr := peer 5, shouldShutdown := True\<rparr>)"
proof -
  have a: "GetInstanceBySysAddr (peer 1) one_world = Some (0, world 1200 3 2000 1)"
    and b: "GetInstanceBySysAddr (peer 5) (one_world\<lparr>chatServerMasterPeerSysAddr := peer 5\<rparr>) = None"
    and c: "GetInstanceBySysAddr (peer 5) (one_world\<lparr>chatServerMasterPeerSysAddr := peer 5, shouldShutdown := True\<rparr>) = None"
    and d: "peer 1 \<noteq> chatServerMasterPeerSysAddr one_world" "m_Instances one_world = [(0, world 1200 3 2000 1)]"
           "effects one_world = []"
    by (simp_all add: model_defs)
  from peer_disconnect [of "\<lparr>data0 = ID_DISCONNECTION_NOTIFICATION, systemAddress = peer 1, master = None\<rparr>" env0 one_world]
    peer_disconnect [of "\<lparr>data0 = ID_CONNECTION_LOST, systemAddress = peer 5, master = None\<rparr>" env0 "one_world\<lparr>chatServerMasterPeerSysAddr := peer 5\<rparr>"]
    peer_disconnect [of "\<lparr>data0 = ID_CONNECTION_LOST, systemAddress = peer 5, master = None\<rparr>" env0 "one_world\<lparr>chatServerMasterPeerSysAddr := peer 5, shouldShutdown := True\<rparr>"]
  show ?thesis using a b c d
    by (simp add: model_defs Let_def)
qed

section \<open>Universe shutdown\<close>



section \<open>The shutdown coordinator\<close>



section \<open>Affirmation timeout\<close>



end
